theory Spec2Isabelle
  imports Main
begin

section \<open>JavaScript strings\<close>

text \<open>
  A JavaScript string is a sequence of UTF-16 code units. It is modelled as the list of its
  code units, each a natural number below 65536; an ASCII literal of the source is written
  \<open>lit ''...''\<close>, and the three symbols outside ASCII that the source uses are given by their
  code units.
\<close>

type_synonym jstring = "nat list"

definition lit :: "string \<Rightarrow> jstring" where
  "lit s = map of_char s"

text \<open>Truthiness of a string: only the empty string is falsy.\<close>

definition truthy :: "jstring \<Rightarrow> bool" where
  "truthy s = (s \<noteq> [])"

text \<open>
  Truthiness of a value that is \<open>null\<close> or a string (\<open>activeConversationId\<close>,
  \<open>err.response?.data?.detail\<close>): \<open>null\<close>, \<open>undefined\<close> and the empty string are falsy.
\<close>

definition truthy_opt :: "jstring option \<Rightarrow> bool" where
  "truthy_opt v = (case v of None \<Rightarrow> False | Some s \<Rightarrow> truthy s)"

text \<open>
  \<open>String.prototype.trim\<close> removes white space and line terminators from both ends. The code
  units it removes are TAB, LF, VT, FF, CR, SPACE, NBSP, U+1680, U+2000 to U+200A, U+2028,
  U+2029, U+202F, U+205F, U+3000 and U+FEFF.
\<close>

definition is_white_space :: "nat \<Rightarrow> bool" where
  "is_white_space u =
     (u = 9 \<or> u = 10 \<or> u = 11 \<or> u = 12 \<or> u = 13 \<or> u = 32 \<or> u = 160 \<or> u = 5760
      \<or> (8192 \<le> u \<and> u \<le> 8202) \<or> u = 8232 \<or> u = 8233 \<or> u = 8239 \<or> u = 8287
      \<or> u = 12288 \<or> u = 65279)"

definition trim :: "jstring \<Rightarrow> jstring" where
  "trim s = rev (dropWhile is_white_space (rev (dropWhile is_white_space s)))"

text \<open>
  \<open>Array.prototype.map\<close> with the two-argument callback \<open>(element, index)\<close>.
\<close>

definition map_index :: "('a \<Rightarrow> nat \<Rightarrow> 'b) \<Rightarrow> 'a list \<Rightarrow> 'b list" where
  "map_index f xs = map (\<lambda>(index, x). f x index) (enumerate 0 xs)"

text \<open>The symbols of the source that are not ASCII.\<close>

definition HOURGLASS :: jstring where
  "HOURGLASS = [0x23F3]"

definition CROSS_MARK :: jstring where
  "CROSS_MARK = [0x274C]"

definition MAGNIFIER :: jstring where
  "MAGNIFIER = [0xD83D, 0xDD0D]"

section \<open>Data model\<close>

text \<open>A conversation as the backend returns it; the field \<open>id\<close> is \<open>conv_id\<close> here.\<close>

record conversation =
  conv_id :: jstring
  title :: jstring
  message_count :: nat
  updated_at :: jstring

text \<open>A message of a conversation thread.\<close>

record message =
  question :: jstring
  answer :: jstring
  task_type :: jstring
  timestamp :: jstring

text \<open>
  An entry of the unfiled \<open>history\<close>: \<open>{ id, question, answer }\<close>, the id being the reading of
  \<open>Date.now()\<close> at submission.
\<close>

record entry =
  entry_id :: nat
  entry_question :: jstring
  entry_answer :: jstring

text \<open>
  The state of \<open>FinalApp\<close> (the composer text \<open>question\<close> is \<open>questionText\<close> here, since
  \<open>question\<close> is the field of a message) together with the state of the
  \<open>ConversationSidebar\<close> it renders. The sidebar's prop \<open>activeConversationId\<close> is the
  field of the same name; its props \<open>onConversationSelect\<close> and \<open>onNewConversation\<close> are
  \<open>handleConversationSelect\<close> and \<open>handleNewConversation\<close>. The state \<open>file\<close> is
  \<open>chosenFile\<close> here and holds the name of the chosen file.
\<close>

record app =
  chosenFile :: "jstring option"
  questionText :: jstring
  history :: "entry list"
  documentId :: jstring
  uploading :: bool
  asking :: bool
  analyzing :: bool
  activeConversationId :: "jstring option"
  conversationMessages :: "message list"
  conversations :: "conversation list"
  loading :: bool
  showModal :: bool
  editingId :: "jstring option"
  newTitle :: jstring

text \<open>The state after the first render: the \<open>useState\<close> initial values.\<close>

definition initial :: app where
  "initial = \<lparr>chosenFile = None, questionText = [], history = [], documentId = [],
     uploading = False, asking = False, analyzing = False, activeConversationId = None,
     conversationMessages = [], conversations = [], loading = True, showModal = False,
     editingId = None, newTitle = []\<rparr>"

section \<open>Requests, replies and suspended handlers\<close>

datatype http_method = GET | POST | PUT | DELETE

datatype body =
    NoBody
  | QueryBody jstring jstring jstring
  | ConversationBody jstring jstring
  | TitleBody jstring
  | PolicyBody jstring
  | FormData jstring

text \<open>
  \<open>QueryBody question document_id document_type\<close>, \<open>ConversationBody title document_type\<close>,
  \<open>TitleBody title\<close> and \<open>PolicyBody policy_id\<close> are the JSON objects the source posts;
  \<open>FormData file\<close> is the multipart form of an upload.
\<close>

datatype request = Request (req_method: http_method) (req_url: jstring) (req_body: body)

text \<open>
  A rejected axios call: \<open>err.response?.data?.detail\<close> (absent when there is no response or
  no such field) and \<open>err.message\<close>.
\<close>

record axios_error =
  err_detail :: "jstring option"
  err_message :: jstring

datatype query_reply = QueryReply (reply_answer: jstring) (reply_task_type: jstring)

datatype conversations_reply =
  ConversationsReply (list_status: jstring) (list_conversations: "conversation list")

datatype conversation_reply =
  ConversationReply (create_status: jstring) (create_conversation: conversation)

datatype messages_reply =
  MessagesReply (messages_status: jstring) (reply_messages: "message list")

datatype upload_reply = UploadReply (document_id: jstring)

text \<open>
  An async handler runs up to its \<open>await\<close>, and the rest runs when the call settles. The rest
  of each handler is named by a value that holds what the closure captured at the call:
  \<open>AskK\<close> and \<open>AnalyzeK\<close> the \<open>activeConversationId\<close> of that render and the id of the new
  entry, \<open>DeleteK\<close> the prop \<open>activeConversationId\<close> and the argument, \<open>UpdateTitleK\<close> the two
  arguments.
\<close>

datatype pending =
    AskK "jstring option" nat
  | AnalyzeK "jstring option" nat
  | LoadConversationsK
  | CreateK
  | DeleteK "jstring option" jstring
  | UpdateTitleK jstring jstring
  | LoadMessagesK
  | UploadK

section \<open>FinalApp\<close>

subsection \<open>Selecting a conversation and loading its messages\<close>

text \<open>
  \<open>loadConversationMessages\<close> up to its \<open>await\<close>: the GET of the conversation.
\<close>

definition loadConversationMessages :: "jstring \<Rightarrow> request \<times> pending" where
  "loadConversationMessages conversationId =
     (Request GET (lit ''http://localhost:8001/conversations/'' @ conversationId) NoBody,
      LoadMessagesK)"

text \<open>
  The rest of \<open>loadConversationMessages\<close>: the messages replace the list when the body's
  status is \<open>'success'\<close>; any other body, and a rejected call (logged), change nothing.
\<close>

definition loadConversationMessages_settle :: "axios_error + messages_reply \<Rightarrow> app \<Rightarrow> app" where
  "loadConversationMessages_settle r s =
     (case r of
        Inr d \<Rightarrow>
          if messages_status d = lit ''success''
          then s\<lparr>conversationMessages := reply_messages d\<rparr>
          else s
      | Inl err \<Rightarrow> s)"

text \<open>
  The effect with dependency \<open>[activeConversationId]\<close>: a truthy id starts the load, anything
  else empties the list.
\<close>

definition useEffect_activeConversationId :: "app \<Rightarrow> app \<times> (request \<times> pending) option" where
  "useEffect_activeConversationId s =
     (case activeConversationId s of
        None \<Rightarrow> (s\<lparr>conversationMessages := []\<rparr>, None)
      | Some conversationId \<Rightarrow>
          if truthy conversationId
          then (s, Some (loadConversationMessages conversationId))
          else (s\<lparr>conversationMessages := []\<rparr>, None))"

text \<open>
  After the render that follows a batch of state updates, React runs the effect when the
  dependency differs from its value at the previous render (\<open>prev\<close>).
\<close>

definition commit :: "jstring option \<Rightarrow> app \<Rightarrow> app \<times> (request \<times> pending) option" where
  "commit prev s =
     (if activeConversationId s = prev then (s, None) else useEffect_activeConversationId s)"

definition handleConversationSelect :: "jstring option \<Rightarrow> app \<Rightarrow> app" where
  "handleConversationSelect conversationId s =
     s\<lparr>activeConversationId := conversationId, history := []\<rparr>"

definition handleNewConversation :: "jstring option \<Rightarrow> app \<Rightarrow> app" where
  "handleNewConversation conversationId s =
     s\<lparr>activeConversationId := conversationId, history := [], conversationMessages := []\<rparr>"

text \<open>
  \<open>setActive\<close> of the specification: the selection handler, the render and its effect.
\<close>

definition setActive :: "jstring option \<Rightarrow> app \<Rightarrow> app \<times> (request \<times> pending) option" where
  "setActive conversationId s =
     commit (activeConversationId s) (handleConversationSelect conversationId s)"

subsection \<open>Uploading a document\<close>

text \<open>
  \<open>handleUpload\<close> up to its \<open>await\<close>, and its rest; a rejected upload raises an alert and
  changes no state but \<open>uploading\<close>.
\<close>

definition handleUpload :: "app \<Rightarrow> app \<times> (request \<times> pending) option" where
  "handleUpload s =
     (case chosenFile s of
        None \<Rightarrow> (s, None)
      | Some f \<Rightarrow>
          (s\<lparr>uploading := True\<rparr>,
           Some (Request POST (lit ''http://localhost:8001/upload'') (FormData f), UploadK)))"

definition handleUpload_settle :: "axios_error + upload_reply \<Rightarrow> app \<Rightarrow> app" where
  "handleUpload_settle r s =
     (case r of
        Inr res \<Rightarrow> s\<lparr>documentId := document_id res\<rparr>
      | Inl err \<Rightarrow> s)
     \<lparr>uploading := False\<rparr>"

subsection \<open>Asking a question\<close>

definition PROCESSING :: jstring where
  "PROCESSING = HOURGLASS @ lit '' Processing...''"

text \<open>The endpoint both \<open>handleAsk\<close> and \<open>handleAnalyze\<close> compute.\<close>

definition endpoint :: "jstring option \<Rightarrow> jstring" where
  "endpoint active =
     (case active of
        None \<Rightarrow> lit ''http://localhost:8001/query''
      | Some conversationId \<Rightarrow>
          if truthy conversationId
          then lit ''http://localhost:8001/query/'' @ conversationId
          else lit ''http://localhost:8001/query'')"

text \<open>
  \<open>handleAsk\<close> up to its \<open>await\<close>. \<open>now\<close> is the reading of \<open>Date.now()\<close> and \<open>stamp\<close> that of
  \<open>new Date().toISOString()\<close>. The result \<open>None\<close> is the early \<open>return\<close>.
\<close>

definition handleAsk :: "nat \<Rightarrow> jstring \<Rightarrow> app \<Rightarrow> app \<times> (request \<times> pending) option" where
  "handleAsk now stamp s =
     (if \<not> truthy (questionText s) \<or> \<not> truthy (documentId s) then (s, None)
      else
        let newEntry = \<lparr>entry_id = now, entry_question = questionText s,
                         entry_answer = PROCESSING\<rparr>;
            s1 = s\<lparr>asking := True\<rparr>;
            s2 = (if truthy_opt (activeConversationId s)
                  then s1\<lparr>conversationMessages := conversationMessages s1 @
                         [\<lparr>question = questionText s, answer = PROCESSING,
                           task_type = lit ''unknown'', timestamp = stamp\<rparr>]\<rparr>
                  else s1\<lparr>history := history s1 @ [newEntry]\<rparr>);
            s3 = s2\<lparr>questionText := []\<rparr>
        in (s3, Some (Request POST (endpoint (activeConversationId s))
                        (QueryBody (questionText s) (documentId s) (lit ''general'')),
                      AskK (activeConversationId s) (entry_id newEntry))))"

text \<open>\<open>err.response?.data?.detail || err.message\<close>\<close>

definition detail_or_message :: "axios_error \<Rightarrow> jstring" where
  "detail_or_message err =
     (case err_detail err of
        None \<Rightarrow> err_message err
      | Some d \<Rightarrow> if truthy d then d else err_message err)"

text \<open>
  The rest of \<open>handleAsk\<close>, with the \<open>activeConversationId\<close> and \<open>newEntry.id\<close> of its
  closure; \<open>stamp\<close> is the reading of \<open>new Date().toISOString()\<close> at that time. The updaters
  \<open>prev => ...\<close> work on the state at that time. The result is \<open>Inr\<close> of the new state when
  the handler returns and \<open>Inl\<close> when an error leaves it.
\<close>

definition handleAsk_settle ::
  "jstring option \<Rightarrow> nat \<Rightarrow> jstring \<Rightarrow> axios_error + query_reply \<Rightarrow> app \<Rightarrow> axios_error + app"
where
  "handleAsk_settle active newEntry_id stamp r s =
     (case r of
        Inr res \<Rightarrow>
          Inr ((if truthy_opt active
                then s\<lparr>conversationMessages :=
                       map_index (\<lambda>msg index.
                           if int index = int (length (conversationMessages s)) - 1
                           then msg\<lparr>answer := reply_answer res,
                                    task_type := reply_task_type res,
                                    timestamp := stamp\<rparr>
                           else msg)
                         (conversationMessages s)\<rparr>
                else s\<lparr>history :=
                       map (\<lambda>h. if entry_id h = newEntry_id
                                 then h\<lparr>entry_answer := reply_answer res\<rparr> else h)
                         (history s)\<rparr>)
               \<lparr>asking := False\<rparr>)
      | Inl err \<Rightarrow>
          let errorMessage = CROSS_MARK @ lit '' Error: '' @ detail_or_message err
          in Inr ((if truthy_opt active
                   then s\<lparr>conversationMessages :=
                          map_index (\<lambda>msg index.
                              if int index = int (length (conversationMessages s)) - 1
                              then msg\<lparr>answer := errorMessage\<rparr> else msg)
                            (conversationMessages s)\<rparr>
                   else s\<lparr>history :=
                          map (\<lambda>h. if entry_id h = newEntry_id
                                    then h\<lparr>entry_answer := errorMessage\<rparr> else h)
                            (history s)\<rparr>)
                  \<lparr>asking := False\<rparr>))"

subsection \<open>The comprehensive analysis\<close>

definition ANALYZING :: jstring where
  "ANALYZING = HOURGLASS @ lit '' Analyzing document...''"

definition COMPREHENSIVE_ANALYSIS :: jstring where
  "COMPREHENSIVE_ANALYSIS = MAGNIFIER @ lit '' Comprehensive Analysis''"

definition handleAnalyze :: "nat \<Rightarrow> jstring \<Rightarrow> app \<Rightarrow> app \<times> (request \<times> pending) option" where
  "handleAnalyze now stamp s =
     (if \<not> truthy (documentId s) then (s, None)
      else
        let analysisEntry = \<lparr>entry_id = now, entry_question = COMPREHENSIVE_ANALYSIS,
                              entry_answer = ANALYZING\<rparr>;
            s1 = s\<lparr>analyzing := True\<rparr>;
            s2 = (if truthy_opt (activeConversationId s)
                  then s1\<lparr>conversationMessages := conversationMessages s1 @
                         [\<lparr>question = COMPREHENSIVE_ANALYSIS, answer = ANALYZING,
                           task_type = lit ''analysis'', timestamp = stamp\<rparr>]\<rparr>
                  else s1\<lparr>history := history s1 @ [analysisEntry]\<rparr>)
        in (s2, Some (Request POST (endpoint (activeConversationId s))
                        (QueryBody (lit ''Provide a comprehensive analysis of this document'')
                           (documentId s) (lit ''general'')),
                      AnalyzeK (activeConversationId s) (entry_id analysisEntry))))"

definition handleAnalyze_settle ::
  "jstring option \<Rightarrow> nat \<Rightarrow> axios_error + query_reply \<Rightarrow> app \<Rightarrow> axios_error + app"
where
  "handleAnalyze_settle active analysisEntry_id r s =
     (case r of
        Inr res \<Rightarrow>
          Inr ((if truthy_opt active
                then s\<lparr>conversationMessages :=
                       map_index (\<lambda>msg index.
                           if int index = int (length (conversationMessages s)) - 1
                           then msg\<lparr>answer := reply_answer res,
                                    task_type := reply_task_type res\<rparr>
                           else msg)
                         (conversationMessages s)\<rparr>
                else s\<lparr>history :=
                       map (\<lambda>h. if entry_id h = analysisEntry_id
                                 then h\<lparr>entry_answer := reply_answer res\<rparr> else h)
                         (history s)\<rparr>)
               \<lparr>analyzing := False\<rparr>)
      | Inl err \<Rightarrow>
          let errorMessage = CROSS_MARK @ lit '' Analysis failed: '' @ detail_or_message err
          in Inr ((if truthy_opt active
                   then s\<lparr>conversationMessages :=
                          map_index (\<lambda>msg index.
                              if int index = int (length (conversationMessages s)) - 1
                              then msg\<lparr>answer := errorMessage\<rparr> else msg)
                            (conversationMessages s)\<rparr>
                   else s\<lparr>history :=
                          map (\<lambda>h. if entry_id h = analysisEntry_id
                                    then h\<lparr>entry_answer := errorMessage\<rparr> else h)
                            (history s)\<rparr>)
                  \<lparr>analyzing := False\<rparr>))"

section \<open>ConversationSidebar\<close>

text \<open>\<open>loadConversations\<close>, run once by the mount effect.\<close>

definition loadConversations :: "request \<times> pending" where
  "loadConversations =
     (Request GET (lit ''http://localhost:8001/conversations'') NoBody, LoadConversationsK)"

definition loadConversations_settle :: "axios_error + conversations_reply \<Rightarrow> app \<Rightarrow> app" where
  "loadConversations_settle r s =
     (case r of
        Inr d \<Rightarrow>
          if list_status d = lit ''success''
          then s\<lparr>conversations := list_conversations d\<rparr>
          else s
      | Inl err \<Rightarrow> s)
     \<lparr>loading := False\<rparr>"

text \<open>\<open>createNewConversation\<close> up to its \<open>await\<close>; \<open>None\<close> is the early \<open>return\<close>.\<close>

definition createNewConversation :: "app \<Rightarrow> app \<times> (request \<times> pending) option" where
  "createNewConversation s =
     (if \<not> truthy (trim (newTitle s)) then (s, None)
      else (s, Some (Request POST (lit ''http://localhost:8001/conversations'')
                       (ConversationBody (newTitle s) (lit ''general'')),
                     CreateK)))"

definition createNewConversation_settle :: "axios_error + conversation_reply \<Rightarrow> app \<Rightarrow> app" where
  "createNewConversation_settle r s =
     (case r of
        Inr d \<Rightarrow>
          if create_status d = lit ''success''
          then
            let newConversation = create_conversation d;
                s1 = s\<lparr>conversations := newConversation # conversations s\<rparr>;
                s2 = s1\<lparr>showModal := False\<rparr>;
                s3 = s2\<lparr>newTitle := []\<rparr>;
                s4 = handleNewConversation (Some (conv_id newConversation)) s3
            in handleConversationSelect (Some (conv_id newConversation)) s4
          else s
      | Inl err \<Rightarrow> s)"

text \<open>
  \<open>deleteConversation\<close> up to its \<open>await\<close>; \<open>confirmed\<close> is the answer of \<open>window.confirm\<close>.
\<close>

definition deleteConversation :: "bool \<Rightarrow> jstring \<Rightarrow> app \<Rightarrow> app \<times> (request \<times> pending) option" where
  "deleteConversation confirmed conversationId s =
     (if \<not> confirmed then (s, None)
      else (s, Some (Request DELETE
                       (lit ''http://localhost:8001/conversations/'' @ conversationId) NoBody,
                     DeleteK (activeConversationId s) conversationId)))"

text \<open>
  The rest of \<open>deleteConversation\<close>; \<open>active\<close> is the prop \<open>activeConversationId\<close> of the
  render in which the handler was called.
\<close>

definition deleteConversation_settle ::
  "jstring option \<Rightarrow> jstring \<Rightarrow> axios_error + unit \<Rightarrow> app \<Rightarrow> app"
where
  "deleteConversation_settle active conversationId r s =
     (case r of
        Inr ack \<Rightarrow>
          let s1 = s\<lparr>conversations :=
                      filter (\<lambda>c. conv_id c \<noteq> conversationId) (conversations s)\<rparr>
          in if active = Some conversationId
             then handleConversationSelect None s1
             else s1
      | Inl err \<Rightarrow> s)"

definition updateConversationTitle :: "jstring \<Rightarrow> jstring \<Rightarrow> request \<times> pending" where
  "updateConversationTitle conversationId t =
     (Request PUT (lit ''http://localhost:8001/conversations/'' @ conversationId)
        (TitleBody t),
      UpdateTitleK conversationId t)"

definition updateConversationTitle_settle ::
  "jstring \<Rightarrow> jstring \<Rightarrow> axios_error + unit \<Rightarrow> app \<Rightarrow> app"
where
  "updateConversationTitle_settle conversationId t r s =
     (case r of
        Inr ack \<Rightarrow>
          s\<lparr>conversations :=
              map (\<lambda>c. if conv_id c = conversationId then c\<lparr>title := t\<rparr> else c)
                (conversations s),
            editingId := None\<rparr>
      | Inl err \<Rightarrow> s)"

definition handleTitleEdit :: "jstring \<Rightarrow> jstring \<Rightarrow> app \<Rightarrow> app" where
  "handleTitleEdit conversationId currentTitle s =
     s\<lparr>editingId := Some conversationId, newTitle := currentTitle\<rparr>"

definition handleTitleSave :: "jstring \<Rightarrow> app \<Rightarrow> app \<times> (request \<times> pending) option" where
  "handleTitleSave conversationId s =
     (if truthy (trim (newTitle s))
      then (s\<lparr>newTitle := []\<rparr>,
            Some (updateConversationTitle conversationId (trim (newTitle s))))
      else (s\<lparr>editingId := None, newTitle := []\<rparr>, None))"

text \<open>
  \<open>rename\<close> of the specification: the title input holds \<open>t\<close> and is saved; \<open>r\<close> is how the
  PUT settles when one is sent.
\<close>

definition rename :: "jstring \<Rightarrow> jstring \<Rightarrow> axios_error + unit \<Rightarrow> app \<Rightarrow> app" where
  "rename conversationId t r s =
     (case handleTitleSave conversationId (s\<lparr>newTitle := t\<rparr>) of
        (s1, None) \<Rightarrow> s1
      | (s1, Some (req, k)) \<Rightarrow>
          (case k of
             UpdateTitleK i t' \<Rightarrow> updateConversationTitle_settle i t' r s1
           | _ \<Rightarrow> s1))"

text \<open>
  \<open>create\<close> of the specification: the modal's input holds \<open>t\<close>, Create is chosen, and \<open>r\<close>
  is how the POST settles when one is sent.
\<close>

definition create :: "jstring \<Rightarrow> axios_error + conversation_reply \<Rightarrow> app \<Rightarrow> app" where
  "create t r s =
     (case createNewConversation (s\<lparr>newTitle := t\<rparr>) of
        (s1, None) \<Rightarrow> s1
      | (s1, Some (req, k)) \<Rightarrow> createNewConversation_settle r s1)"

text \<open>A sequence of \<open>create\<close> calls, each with its title and the way its POST settles.\<close>

definition create_all :: "(jstring \<times> (axios_error + conversation_reply)) list \<Rightarrow> app \<Rightarrow> app" where
  "create_all calls s = foldl (\<lambda>s' (t, r). create t r s') s calls"

section \<open>The single-answer App\<close>

text \<open>
  The \<open>App\<close> component that shows one answer at a time; its \<open>answer\<close> and \<open>analyzing\<close> are
  \<open>app_answer\<close> and \<open>app_analyzing\<close> here. The sections of \<open>original_sections\<close> are kept
  abstract.
\<close>

record 'section single_app =
  app_answer :: jstring
  originalSections :: "'section list"
  taskType :: jstring
  app_analyzing :: bool
  policyId :: jstring

datatype 'section analysis_reply =
  AnalysisReply (analysis_answer: jstring) (analysis_task_type: jstring)
    (original_sections: "'section list option")

definition App_handleAnalyze ::
  "'section single_app \<Rightarrow> 'section single_app \<times> request option"
where
  "App_handleAnalyze s =
     (if \<not> truthy (policyId s) then (s, None)
      else (s\<lparr>app_analyzing := True,
              app_answer := lit ''Analyzing your policy document...''\<rparr>,
            Some (Request POST (lit ''http://localhost:8001/analyze'')
                    (PolicyBody (policyId s)))))"

definition App_handleAnalyze_settle ::
  "axios_error + 'section analysis_reply \<Rightarrow> 'section single_app \<Rightarrow> 'section single_app"
where
  "App_handleAnalyze_settle r s =
     (case r of
        Inr res \<Rightarrow>
          s\<lparr>app_answer := analysis_answer res,
            originalSections := (case original_sections res of None \<Rightarrow> [] | Some xs \<Rightarrow> xs),
            taskType := analysis_task_type res\<rparr>
      | Inl err \<Rightarrow>
          s\<lparr>app_answer := lit ''Analysis failed: '' @ detail_or_message err,
            originalSections := []\<rparr>)
     \<lparr>app_analyzing := False\<rparr>"

section \<open>The event loop\<close>

text \<open>
  The application runs on one thread: a user event or a settled call runs one handler segment
  to its end, the state updates of the segment are applied in one batch, the component
  renders, and the effects of the render run. A configuration is the state together with
  the calls in flight, each under the number it was given when it was sent.
\<close>

record config =
  ui :: app
  inflight :: "(nat \<times> request \<times> pending) list"
  next_id :: nat

text \<open>
  After the first render the mount effect of the sidebar has sent the GET of the
  conversation list; the effect of \<open>FinalApp\<close> found no active conversation and left the
  empty message list empty.
\<close>

definition initial_config :: config where
  "initial_config = \<lparr>ui = initial, inflight = [(0, loadConversations)], next_id = 1\<rparr>"

definition launch :: "(request \<times> pending) option \<Rightarrow> config \<Rightarrow> config" where
  "launch p c =
     (case p of
        None \<Rightarrow> c
      | Some rk \<Rightarrow> c\<lparr>inflight := inflight c @ [(next_id c, rk)], next_id := Suc (next_id c)\<rparr>)"

text \<open>
  One handler segment \<open>h\<close>, then the render and its effect; the call of the handler is sent
  before the call of the effect.
\<close>

definition react :: "(app \<Rightarrow> app \<times> (request \<times> pending) option) \<Rightarrow> config \<Rightarrow> config" where
  "react h c =
     (let prev = activeConversationId (ui c);
          (s1, p1) = h (ui c);
          (s2, p2) = commit prev s1
      in launch p2 (launch p1 (c\<lparr>ui := s2\<rparr>)))"

text \<open>How a call in flight settles: the rejection, or the body of the response.\<close>

datatype settlement =
    QuerySettled "axios_error + query_reply"
  | ConversationsSettled "axios_error + conversations_reply"
  | ConversationSettled "axios_error + conversation_reply"
  | MessagesSettled "axios_error + messages_reply"
  | AckSettled "axios_error + unit"
  | UploadSettled "axios_error + upload_reply"

text \<open>
  The rest of a suspended handler, for the settlement of its own kind of call. An error that
  leaves a handler (\<open>Inl\<close>) would reject its promise and update nothing.
\<close>

fun resume :: "pending \<Rightarrow> jstring \<Rightarrow> settlement \<Rightarrow> (app \<Rightarrow> app) option" where
  "resume (AskK active i) stamp (QuerySettled r) =
     Some (\<lambda>s. case handleAsk_settle active i stamp r s of Inr s' \<Rightarrow> s' | Inl err \<Rightarrow> s)"
| "resume (AnalyzeK active i) stamp (QuerySettled r) =
     Some (\<lambda>s. case handleAnalyze_settle active i r s of Inr s' \<Rightarrow> s' | Inl err \<Rightarrow> s)"
| "resume LoadConversationsK stamp (ConversationsSettled r) =
     Some (loadConversations_settle r)"
| "resume CreateK stamp (ConversationSettled r) = Some (createNewConversation_settle r)"
| "resume (DeleteK active conversationId) stamp (AckSettled r) =
     Some (deleteConversation_settle active conversationId r)"
| "resume (UpdateTitleK conversationId t) stamp (AckSettled r) =
     Some (updateConversationTitle_settle conversationId t r)"
| "resume LoadMessagesK stamp (MessagesSettled r) = Some (loadConversationMessages_settle r)"
| "resume UploadK stamp (UploadSettled r) = Some (handleUpload_settle r)"
| "resume _ _ _ = None"

text \<open>
  The composer input is rendered with \<open>disabled={!documentId || asking}\<close> and the analysis
  button only when \<open>documentId\<close> is truthy, with \<open>disabled={analyzing}\<close>: the two handlers can
  be called only then. The upload button has \<open>disabled={uploading || !file}\<close>.
\<close>

definition can_upload :: "app \<Rightarrow> bool" where
  "can_upload s = (\<not> uploading s \<and> chosenFile s \<noteq> None)"

definition can_ask :: "app \<Rightarrow> bool" where
  "can_ask s = (truthy (documentId s) \<and> \<not> asking s)"

definition can_analyze :: "app \<Rightarrow> bool" where
  "can_analyze s = (truthy (documentId s) \<and> \<not> analyzing s)"

datatype event =
    ChooseFile jstring
  | Upload
  | ChangeQuestion jstring
  | Ask nat jstring
  | Analyze nat jstring
  | SelectConversation jstring
  | ShowModal bool
  | ChangeNewTitle jstring
  | CreateConversation
  | DeleteConversation bool jstring
  | TitleEdit jstring jstring
  | TitleSave jstring
  | CancelEdit
  | Settle nat jstring settlement

text \<open>
  \<open>Settle n stamp r\<close> is the call number \<open>n\<close> settling as \<open>r\<close> at time \<open>stamp\<close>; it is
  nothing when no such call is in flight or \<open>r\<close> is not of its kind. The events of the
  sidebar are taken as they come, whether or not the item or the modal they belong to is
  rendered, so the sequences of events include all those the interface allows.
\<close>

fun step :: "event \<Rightarrow> config \<Rightarrow> config" where
  "step (ChooseFile f) c = react (\<lambda>s. (s\<lparr>chosenFile := Some f\<rparr>, None)) c"
| "step Upload c = (if can_upload (ui c) then react handleUpload c else c)"
| "step (ChangeQuestion q) c = react (\<lambda>s. (s\<lparr>questionText := q\<rparr>, None)) c"
| "step (Ask now stamp) c = (if can_ask (ui c) then react (handleAsk now stamp) c else c)"
| "step (Analyze now stamp) c =
     (if can_analyze (ui c) then react (handleAnalyze now stamp) c else c)"
| "step (SelectConversation conversationId) c =
     react (\<lambda>s. (handleConversationSelect (Some conversationId) s, None)) c"
| "step (ShowModal b) c = react (\<lambda>s. (s\<lparr>showModal := b\<rparr>, None)) c"
| "step (ChangeNewTitle t) c = react (\<lambda>s. (s\<lparr>newTitle := t\<rparr>, None)) c"
| "step CreateConversation c = react createNewConversation c"
| "step (DeleteConversation confirmed conversationId) c =
     react (deleteConversation confirmed conversationId) c"
| "step (TitleEdit conversationId currentTitle) c =
     react (\<lambda>s. (handleTitleEdit conversationId currentTitle s, None)) c"
| "step (TitleSave conversationId) c = react (handleTitleSave conversationId) c"
| "step CancelEdit c = react (\<lambda>s. (s\<lparr>editingId := None, newTitle := []\<rparr>, None)) c"
| "step (Settle n stamp r) c =
     (case map_of (inflight c) n of
        None \<Rightarrow> c
      | Some (req, k) \<Rightarrow>
          (case resume k stamp r of
             None \<Rightarrow> c
           | Some h \<Rightarrow>
               react (\<lambda>s. (h s, None))
                 (c\<lparr>inflight := filter (\<lambda>(i, rk). i \<noteq> n) (inflight c)\<rparr>)))"

definition run :: "event list \<Rightarrow> config \<Rightarrow> config" where
  "run events c = fold step events c"

text \<open>The numbers of the calls in flight are below the next number to be given.\<close>

definition numbered :: "config \<Rightarrow> bool" where
  "numbered c = list_all (\<lambda>(i, rk). i < next_id c) (inflight c)"

section \<open>A sample session\<close>

text \<open>
  The scenario of the specification: the conversation "Lab Results" and the question
  "What are my results?".
\<close>

definition lab_results :: conversation where
  "lab_results = \<lparr>conv_id = lit ''c1'', title = lit ''Lab Results'', message_count = 0,
     updated_at = lit ''2025-01-01T00:00:00.000Z''\<rparr>"

definition earlier_message :: message where
  "earlier_message = \<lparr>question = lit ''Who can see my data?'', answer = lit ''Your doctor.'',
     task_type = lit ''translation'', timestamp = lit ''2025-01-01T00:00:00.000Z''\<rparr>"

text \<open>
  The conversation list arrives, a document is uploaded, the conversation is created and
  its (empty) thread loaded, the question is typed and asked (call 4), and the analysis is
  started (call 5) while the question is still in flight.
\<close>

definition two_in_flight :: "event list" where
  "two_in_flight =
     [Settle 0 (lit ''t0'')
        (ConversationsSettled (Inr (ConversationsReply (lit ''success'') []))),
      ChooseFile (lit ''policy.pdf''),
      Upload,
      Settle 1 (lit ''t1'') (UploadSettled (Inr (UploadReply (lit ''d1'')))),
      ShowModal True,
      ChangeNewTitle (lit ''Lab Results''),
      CreateConversation,
      Settle 2 (lit ''t2'')
        (ConversationSettled (Inr (ConversationReply (lit ''success'') lab_results))),
      Settle 3 (lit ''t3'') (MessagesSettled (Inr (MessagesReply (lit ''success'') []))),
      ChangeQuestion (lit ''What are my results?''),
      Ask 1000 (lit ''t4''),
      Analyze 2000 (lit ''t5'')]"

text \<open>
  The scenario of the specification with one exchange only: the question is asked in the
  new conversation and answered.
\<close>

definition lab_results_session :: "event list" where
  "lab_results_session =
     [Settle 0 (lit ''t0'')
        (ConversationsSettled (Inr (ConversationsReply (lit ''success'') []))),
      ChooseFile (lit ''policy.pdf''),
      Upload,
      Settle 1 (lit ''t1'') (UploadSettled (Inr (UploadReply (lit ''d1'')))),
      ShowModal True,
      ChangeNewTitle (lit ''Lab Results''),
      CreateConversation,
      Settle 2 (lit ''t2'')
        (ConversationSettled (Inr (ConversationReply (lit ''success'') lab_results))),
      Settle 3 (lit ''t3'') (MessagesSettled (Inr (MessagesReply (lit ''success'') []))),
      ChangeQuestion (lit ''What are my results?''),
      Ask 1000 (lit ''t4''),
      Settle 4 (lit ''t6'')
        (QuerySettled (Inr (QueryReply (lit ''Normal'') (lit ''translation''))))]"

text \<open>
  A question is asked in one conversation, the user selects another one while the call is
  in flight, the thread of that one is loaded, and then the answer arrives.
\<close>

definition privacy_policy :: conversation where
  "privacy_policy = \<lparr>conv_id = lit ''c2'', title = lit ''Privacy Policy'', message_count = 1,
     updated_at = lit ''2025-01-01T00:00:00.000Z''\<rparr>"

definition asked_then_switched :: "event list" where
  "asked_then_switched =
     [Settle 0 (lit ''t0'')
        (ConversationsSettled
           (Inr (ConversationsReply (lit ''success'') [lab_results, privacy_policy]))),
      ChooseFile (lit ''policy.pdf''),
      Upload,
      Settle 1 (lit ''t1'') (UploadSettled (Inr (UploadReply (lit ''d1'')))),
      SelectConversation (lit ''c1''),
      Settle 2 (lit ''t2'') (MessagesSettled (Inr (MessagesReply (lit ''success'') []))),
      ChangeQuestion (lit ''What are my results?''),
      Ask 1000 (lit ''t4''),
      SelectConversation (lit ''c2''),
      Settle 4 (lit ''t5'')
        (MessagesSettled (Inr (MessagesReply (lit ''success'') [earlier_message]))),
      Settle 3 (lit ''t6'')
        (QuerySettled (Inr (QueryReply (lit ''Normal'') (lit ''translation''))))]"

text \<open>A rejected call with a detail from the backend.\<close>

definition not_found :: axios_error where
  "not_found = \<lparr>err_detail = Some (lit ''Document not found''),
     err_message = lit ''Request failed with status code 404''\<rparr>"

text \<open>
  A question asked in the conversation "Lab Results", whose thread the backend returned
  empty, is rejected; then the user selects that same conversation again.
\<close>

definition reselect_active :: "event list" where
  "reselect_active =
     [Settle 0 (lit ''t0'')
        (ConversationsSettled (Inr (ConversationsReply (lit ''success'') [lab_results]))),
      ChooseFile (lit ''policy.pdf''),
      Upload,
      Settle 1 (lit ''t1'') (UploadSettled (Inr (UploadReply (lit ''d1'')))),
      SelectConversation (lit ''c1''),
      Settle 2 (lit ''t2'') (MessagesSettled (Inr (MessagesReply (lit ''success'') []))),
      ChangeQuestion (lit ''What are my results?''),
      Ask 1000 (lit ''t4''),
      Settle 3 (lit ''t6'') (QuerySettled (Inl not_found)),
      SelectConversation (lit ''c1'')]"

text \<open>
  The conversation is selected (call 1 loads its thread) and its deletion is confirmed
  twice (calls 2 and 3). The first deletion is fulfilled and clears the selection, the
  thread arrives late, and the second deletion is fulfilled and selects \<open>null\<close> again.
\<close>

definition two_deletes :: "event list" where
  "two_deletes =
     [Settle 0 (lit ''t0'')
        (ConversationsSettled (Inr (ConversationsReply (lit ''success'') [lab_results]))),
      SelectConversation (lit ''c1''),
      DeleteConversation True (lit ''c1''),
      DeleteConversation True (lit ''c1''),
      Settle 2 (lit ''t2'') (AckSettled (Inr ())),
      Settle 1 (lit ''t3'')
        (MessagesSettled (Inr (MessagesReply (lit ''success'') [earlier_message]))),
      Settle 3 (lit ''t4'') (AckSettled (Inr ()))]"

text \<open>A document is uploaded and a question typed, with no conversation active.\<close>

definition typed_unfiled :: config where
  "typed_unfiled =
     \<lparr>ui = initial\<lparr>documentId := lit ''d1'', questionText := lit ''What are my results?'',
             loading := False\<rparr>,
       inflight = [], next_id = 2\<rparr>"

text \<open>The single-answer \<open>App\<close> after the upload of a policy.\<close>

definition single_with_policy :: "unit single_app" where
  "single_with_policy = \<lparr>app_answer = lit ''Document uploaded and processed successfully!'',
     originalSections = [], taskType = [], app_analyzing = False, policyId = lit ''p1''\<rparr>"


section \<open>Auxiliary facts\<close>

lemma lit_eq_iff [simp]: "lit a = lit b \<longleftrightarrow> a = b"
  by (simp add: lit_def inj_map_eq_map [OF inj_of_char])

lemma lit_eq_Nil [simp]: "lit a = [] \<longleftrightarrow> a = []"
  by (simp add: lit_def)

lemma trim_blank: "trim (lit ''   '') = []"
  by (simp add: trim_def lit_def is_white_space_def)

lemma trim_lab_results: "trim (lit ''Lab Results'') = lit ''Lab Results''"
  by (simp add: trim_def lit_def is_white_space_def)

lemma trim_padded: "trim (lit ''  Blood Panel '') = lit ''Blood Panel''"
  by (simp add: trim_def lit_def is_white_space_def)

lemma length_map_index: "length (map_index f xs) = length xs"
  by (simp add: map_index_def)

lemma nth_map_index: "i < length xs \<Longrightarrow> map_index f xs ! i = f (xs ! i) i"
  by (simp add: map_index_def nth_enumerate_eq)

text \<open>Patching the element at index \<open>length - 1\<close> patches the element appended last.\<close>

lemma map_index_last:
  "map_index (\<lambda>x index. if int index = int (length (xs @ [y])) - 1 then f x else x) (xs @ [y]) =
     xs @ [f y]"
proof (rule nth_equalityI)
  show "length (map_index (\<lambda>x index. if int index = int (length (xs @ [y])) - 1 then f x else x)
      (xs @ [y])) = length (xs @ [f y])"
    by (simp add: length_map_index)
next
  fix i
  assume "i < length (map_index
      (\<lambda>x index. if int index = int (length (xs @ [y])) - 1 then f x else x) (xs @ [y]))"
  then have "i < length (xs @ [y])"
    by (simp add: length_map_index)
  then show "map_index (\<lambda>x index. if int index = int (length (xs @ [y])) - 1 then f x else x)
      (xs @ [y]) ! i = (xs @ [f y]) ! i"
    by (auto simp: nth_map_index nth_append)
qed

lemma detail_or_message_cases:
  "detail_or_message err =
     (case err_detail err of
        None \<Rightarrow> err_message err
      | Some d \<Rightarrow> if d = [] then err_message err else d)"
  by (simp add: detail_or_message_def truthy_def split: option.split)

lemmas handler_defs =
  react_def launch_def commit_def useEffect_activeConversationId_def
  loadConversationMessages_def loadConversationMessages_settle_def
  handleConversationSelect_def handleNewConversation_def
  handleUpload_def handleUpload_settle_def handleAsk_def handleAsk_settle_def
  handleAnalyze_def handleAnalyze_settle_def loadConversations_def loadConversations_settle_def
  createNewConversation_def createNewConversation_settle_def
  deleteConversation_def deleteConversation_settle_def
  updateConversationTitle_def updateConversationTitle_settle_def
  handleTitleEdit_def handleTitleSave_def can_ask_def can_analyze_def can_upload_def
  truthy_def truthy_opt_def endpoint_def

subsection \<open>The numbering of calls\<close>

lemma numbered_fresh: "numbered c \<Longrightarrow> map_of (inflight c) (next_id c) = None"
  by (auto simp: numbered_def list_all_iff map_of_eq_None_iff)

lemma numbered_keep:
  "numbered c \<Longrightarrow> filter (\<lambda>(i, rk). i \<noteq> next_id c) (inflight c) = inflight c"
  by (auto simp: numbered_def list_all_iff intro!: filter_True)

lemma numbered_launch: "numbered c \<Longrightarrow> numbered (launch p c)"
  by (cases p) (auto simp: numbered_def launch_def list_all_iff)

lemma numbered_ui: "numbered (c\<lparr>ui := s\<rparr>) = numbered c"
  by (simp add: numbered_def)

lemma numbered_react: "numbered c \<Longrightarrow> numbered (react h c)"
  by (simp add: react_def Let_def split_beta numbered_launch numbered_ui)

lemma numbered_settled: "numbered c \<Longrightarrow> numbered (c\<lparr>inflight := filter P (inflight c)\<rparr>)"
  by (simp add: numbered_def list_all_iff)

lemma numbered_step: "numbered c \<Longrightarrow> numbered (step e c)"
  by (cases e) (simp_all add: numbered_react numbered_settled split: option.split prod.split)

text \<open>Every configuration the application reaches has its calls numbered.\<close>

lemma numbered_run: "numbered c \<Longrightarrow> numbered (run events c)"
  unfolding run_def by (induction events arbitrary: c) (simp_all add: numbered_step)

lemma numbered_initial: "numbered initial_config"
  by (simp add: numbered_def initial_config_def)

subsection \<open>The two halves of handleAsk\<close>

lemma handleAsk_accepted:
  "truthy (questionText s) \<Longrightarrow> truthy (documentId s) \<Longrightarrow>
   handleAsk now stamp s =
     ((if truthy_opt (activeConversationId s)
       then s\<lparr>asking := True, conversationMessages := conversationMessages s @
              [\<lparr>question = questionText s, answer = PROCESSING,
                task_type = lit ''unknown'', timestamp = stamp\<rparr>]\<rparr>
       else s\<lparr>asking := True, history := history s @
              [\<lparr>entry_id = now, entry_question = questionText s,
                entry_answer = PROCESSING\<rparr>]\<rparr>)
      \<lparr>questionText := []\<rparr>,
      Some (Request POST (endpoint (activeConversationId s))
              (QueryBody (questionText s) (documentId s) (lit ''general'')),
            AskK (activeConversationId s) now))"
  by (simp add: handleAsk_def Let_def)

lemma react_same_active:
  "h (ui c) = (s, p) \<Longrightarrow> activeConversationId s = activeConversationId (ui c) \<Longrightarrow>
   react h c = launch p (c\<lparr>ui := s\<rparr>)"
  by (simp add: react_def commit_def launch_def)

lemma step_Ask:
  assumes "can_ask (ui c)" and "truthy (questionText (ui c))"
  shows "step (Ask now stamp) c =
     c\<lparr>ui := fst (handleAsk now stamp (ui c)),
       inflight := inflight c @
         [(next_id c,
           Request POST (endpoint (activeConversationId (ui c)))
             (QueryBody (questionText (ui c)) (documentId (ui c)) (lit ''general'')),
           AskK (activeConversationId (ui c)) now)],
       next_id := Suc (next_id c)\<rparr>"
proof -
  from assms have d: "truthy (documentId (ui c))"
    by (simp add: can_ask_def)
  note h = handleAsk_accepted [OF assms(2) d, of now stamp]
  have "react (handleAsk now stamp) c =
      launch (snd (handleAsk now stamp (ui c))) (c\<lparr>ui := fst (handleAsk now stamp (ui c))\<rparr>)"
    by (rule react_same_active) (simp_all add: h)
  then show ?thesis
    using assms(1) by (simp add: h launch_def)
qed

lemma handleAsk_settle_returns:
  "\<exists>s'. handleAsk_settle active i stamp' r s = Inr s' \<and>
        activeConversationId s' = activeConversationId s"
  by (cases r) (simp_all add: handleAsk_settle_def Let_def)

lemma step_Settle_Ask:
  assumes "numbered c"
  shows "step (Settle (next_id c) stamp' (QuerySettled r))
           (c\<lparr>ui := s, inflight := inflight c @ [(next_id c, req, AskK active i)],
              next_id := Suc (next_id c)\<rparr>) =
         c\<lparr>ui := (case handleAsk_settle active i stamp' r s of Inr s' \<Rightarrow> s' | Inl err \<Rightarrow> s),
           next_id := Suc (next_id c)\<rparr>"
proof -
  obtain s' where s': "handleAsk_settle active i stamp' r s = Inr s'"
    and a: "activeConversationId s' = activeConversationId s"
    using handleAsk_settle_returns by blast
  show ?thesis
    using numbered_fresh [OF assms] numbered_keep [OF assms] a
    by (simp add: map_add_def react_def commit_def launch_def s')
qed

lemma handleAsk_settle_rejected_thread:
  assumes "truthy_opt active" and "conversationMessages s = ms @ [p]"
  shows "handleAsk_settle active i stamp' (Inl err) s =
     Inr (s\<lparr>conversationMessages :=
              ms @ [p\<lparr>answer := CROSS_MARK @ lit '' Error: '' @ detail_or_message err\<rparr>],
            asking := False\<rparr>)"
  using assms(1)
    map_index_last [of ms p
      "\<lambda>msg. msg\<lparr>answer := CROSS_MARK @ lit '' Error: '' @ detail_or_message err\<rparr>"]
  by (simp add: handleAsk_settle_def Let_def assms(2))

lemma handleAsk_settle_rejected_history:
  assumes "\<not> truthy_opt active"
  shows "handleAsk_settle active i stamp' (Inl err) s =
     Inr (s\<lparr>history :=
              map (\<lambda>h. if entry_id h = i
                        then h\<lparr>entry_answer :=
                               CROSS_MARK @ lit '' Error: '' @ detail_or_message err\<rparr>
                        else h) (history s),
            asking := False\<rparr>)"
  using assms by (simp add: handleAsk_settle_def Let_def)

subsection \<open>Creating and renaming\<close>

lemma create_acknowledged:
  "trim t \<noteq> [] \<Longrightarrow>
   create t (Inr (ConversationReply (lit ''success'') c)) s =
     s\<lparr>newTitle := [], conversations := c # conversations s, showModal := False,
       activeConversationId := Some (conv_id c), history := [], conversationMessages := []\<rparr>"
  by (simp add: create_def createNewConversation_def createNewConversation_settle_def
      truthy_def handleNewConversation_def handleConversationSelect_def Let_def)

lemma create_all_snoc: "create_all (calls @ [(t, r)]) s = create t r (create_all calls s)"
  by (simp add: create_all_def)

text \<open>
  A run of acknowledged creates with non-blank titles puts the new conversations in front
  of the list, the newest first.
\<close>

lemma create_all_acknowledged:
  "\<forall>(t, c) \<in> set tcs. trim t \<noteq> [] \<Longrightarrow>
   conversations
     (create_all (map (\<lambda>(t, c). (t, Inr (ConversationReply (lit ''success'') c))) tcs) s) =
     rev (map snd tcs) @ conversations s"
proof (induction tcs rule: rev_induct)
  case Nil
  then show ?case by (simp add: create_all_def)
next
  case (snoc x xs)
  obtain t c where x: "x = (t, c)" by (cases x)
  from snoc.prems have t: "trim t \<noteq> []" and xs: "\<forall>(t, c) \<in> set xs. trim t \<noteq> []"
    by (auto simp: x)
  show ?case
    using snoc.IH [OF xs] t
    by (simp add: x create_all_snoc create_acknowledged)
qed

lemma rename_blank:
  "trim t = [] \<Longrightarrow> rename i t r s = s\<lparr>editingId := None, newTitle := []\<rparr>"
  by (simp add: rename_def handleTitleSave_def truthy_def)

lemma rename_acknowledged:
  "trim t \<noteq> [] \<Longrightarrow> rename i t (Inr ()) s =
     s\<lparr>newTitle := [], conversations :=
          map (\<lambda>c. if conv_id c = i then c\<lparr>title := trim t\<rparr> else c) (conversations s),
        editingId := None\<rparr>"
  by (simp add: rename_def handleTitleSave_def truthy_def updateConversationTitle_def
      updateConversationTitle_settle_def)

section \<open>Validation before any request\<close>

text \<open>
  C5. A create whose title trims to the empty string, and a submit with an empty question or
  with no document identifier, return before anything is sent (the handler yields no
  request) and leave the whole state, hence the conversation list, the threads and the
  active selection, as they were.
\<close>

theorem validation_rejects_locally:
  "(trim (newTitle s) = [] \<longrightarrow> createNewConversation s = (s, None)) \<and>
   (questionText s = [] \<or> documentId s = [] \<longrightarrow> handleAsk now stamp s = (s, None))"
  by (simp add: createNewConversation_def handleAsk_def truthy_def)

theorem validation_rejects_locally_witness:
  "trim (newTitle (initial\<lparr>newTitle := lit ''   ''\<rparr>)) = [] \<and>
   createNewConversation (initial\<lparr>newTitle := lit ''   ''\<rparr>) =
     (initial\<lparr>newTitle := lit ''   ''\<rparr>, None) \<and>
   (questionText (initial\<lparr>documentId := lit ''d1''\<rparr>) = [] \<or>
    documentId (initial\<lparr>documentId := lit ''d1''\<rparr>) = []) \<and>
   handleAsk 7 (lit ''t'') (initial\<lparr>documentId := lit ''d1''\<rparr>) =
     (initial\<lparr>documentId := lit ''d1''\<rparr>, None)"
  using validation_rejects_locally [of "initial\<lparr>newTitle := lit ''   ''\<rparr>"]
    validation_rejects_locally [of "initial\<lparr>documentId := lit ''d1''\<rparr>" 7 "lit ''t''"]
  by (simp add: trim_blank initial_def)

section \<open>Responses whose status is not success\<close>

text \<open>
  C10. A fulfilled call whose body has a status other than \<open>'success'\<close> leaves the store as
  it was: loading the conversation list changes nothing but the \<open>loading\<close> flag of the
  sidebar, so the list stays; a create inserts nothing, activates nothing and keeps the
  modal and its title input; loading the messages of a conversation keeps the message list.
\<close>

theorem unsuccessful_body_leaves_store:
  "(list_status d1 \<noteq> lit ''success'' \<longrightarrow>
      loadConversations_settle (Inr d1) s = s\<lparr>loading := False\<rparr> \<and>
      conversations (loadConversations_settle (Inr d1) s) = conversations s) \<and>
   (create_status d2 \<noteq> lit ''success'' \<longrightarrow> createNewConversation_settle (Inr d2) s = s) \<and>
   (messages_status d3 \<noteq> lit ''success'' \<longrightarrow>
      loadConversationMessages_settle (Inr d3) s = s \<and>
      conversationMessages (loadConversationMessages_settle (Inr d3) s) =
        conversationMessages s)"
  by (simp add: loadConversations_settle_def createNewConversation_settle_def
      loadConversationMessages_settle_def)

theorem unsuccessful_body_leaves_store_witness:
  "list_status (ConversationsReply (lit ''error'') [lab_results]) \<noteq> lit ''success'' \<and>
   loadConversations_settle (Inr (ConversationsReply (lit ''error'') [lab_results])) initial =
     initial\<lparr>loading := False\<rparr> \<and>
   create_status (ConversationReply (lit ''error'') lab_results) \<noteq> lit ''success'' \<and>
   createNewConversation_settle (Inr (ConversationReply (lit ''error'') lab_results)) initial =
     initial \<and>
   messages_status (MessagesReply (lit ''error'') [earlier_message]) \<noteq> lit ''success'' \<and>
   loadConversationMessages_settle (Inr (MessagesReply (lit ''error'') [earlier_message]))
     initial = initial"
  using unsuccessful_body_leaves_store
    [of "ConversationsReply (lit ''error'') [lab_results]" initial
        "ConversationReply (lit ''error'') lab_results"
        "MessagesReply (lit ''error'') [earlier_message]"]
  by simp

section \<open>Renaming a conversation\<close>

text \<open>
  C9. \<open>rename(id, t)\<close>: when \<open>t\<close> trims to the empty string no request is sent, the
  conversation list (and so every stored title) is unchanged and edit mode is left; when
  it does not, a PUT of the trimmed title is sent and, once acknowledged, the list has the
  same length and the same ids in the same order, the conversations with that id differ
  from before in their title only, and every other conversation is unchanged.
\<close>

theorem rename_frame:
  "(trim t = [] \<longrightarrow>
      snd (handleTitleSave i (s\<lparr>newTitle := t\<rparr>)) = None \<and>
      conversations (rename i t r s) = conversations s \<and>
      editingId (rename i t r s) = None) \<and>
   (trim t \<noteq> [] \<longrightarrow>
      snd (handleTitleSave i (s\<lparr>newTitle := t\<rparr>)) =
        Some (Request PUT (lit ''http://localhost:8001/conversations/'' @ i)
                (TitleBody (trim t)),
              UpdateTitleK i (trim t)) \<and>
      length (conversations (rename i t (Inr ()) s)) = length (conversations s) \<and>
      map conv_id (conversations (rename i t (Inr ()) s)) = map conv_id (conversations s) \<and>
      (\<forall>n < length (conversations s).
         conversations (rename i t (Inr ()) s) ! n =
           (if conv_id (conversations s ! n) = i
            then (conversations s ! n)\<lparr>title := trim t\<rparr>
            else conversations s ! n)))"
proof (intro conjI impI)
  assume "trim t = []"
  then show "snd (handleTitleSave i (s\<lparr>newTitle := t\<rparr>)) = None"
    by (simp add: handleTitleSave_def truthy_def)
next
  assume "trim t = []"
  then show "conversations (rename i t r s) = conversations s"
    by (simp add: rename_blank)
next
  assume "trim t = []"
  then show "editingId (rename i t r s) = None"
    by (simp add: rename_blank)
next
  assume "trim t \<noteq> []"
  then show "snd (handleTitleSave i (s\<lparr>newTitle := t\<rparr>)) =
        Some (Request PUT (lit ''http://localhost:8001/conversations/'' @ i)
                (TitleBody (trim t)),
              UpdateTitleK i (trim t))"
    by (simp add: handleTitleSave_def truthy_def updateConversationTitle_def)
next
  assume "trim t \<noteq> []"
  then show "length (conversations (rename i t (Inr ()) s)) = length (conversations s)"
    by (simp add: rename_acknowledged)
next
  assume "trim t \<noteq> []"
  then show "map conv_id (conversations (rename i t (Inr ()) s)) =
      map conv_id (conversations s)"
    by (simp add: rename_acknowledged comp_def if_distrib cong: if_cong)
next
  assume "trim t \<noteq> []"
  then show "\<forall>n < length (conversations s).
         conversations (rename i t (Inr ()) s) ! n =
           (if conv_id (conversations s ! n) = i
            then (conversations s ! n)\<lparr>title := trim t\<rparr>
            else conversations s ! n)"
    by (simp add: rename_acknowledged)
qed

theorem rename_frame_witness:
  "trim (lit ''   '') = [] \<and>
   conversations (rename (lit ''c1'') (lit ''   '') (Inr ())
      (initial\<lparr>conversations := [lab_results], editingId := Some (lit ''c1'')\<rparr>)) =
     [lab_results] \<and>
   editingId (rename (lit ''c1'') (lit ''   '') (Inr ())
      (initial\<lparr>conversations := [lab_results], editingId := Some (lit ''c1'')\<rparr>)) = None \<and>
   trim (lit ''  Blood Panel '') \<noteq> [] \<and>
   conversations (rename (lit ''c1'') (lit ''  Blood Panel '') (Inr ())
     (initial\<lparr>conversations := [lab_results], editingId := Some (lit ''c1'')\<rparr>)) ! 0 =
     lab_results\<lparr>title := lit ''Blood Panel''\<rparr>"
  using
    rename_frame [of "lit ''   ''" "lit ''c1''"
      "initial\<lparr>conversations := [lab_results], editingId := Some (lit ''c1'')\<rparr>" "Inr ()"]
    rename_frame [of "lit ''  Blood Panel ''" "lit ''c1''"
      "initial\<lparr>conversations := [lab_results], editingId := Some (lit ''c1'')\<rparr>" "Inr ()"]
  by (simp add: trim_blank trim_padded initial_def lab_results_def)

section \<open>Creating conversations\<close>

text \<open>
  C3. After any sequence of earlier create calls, a create whose title does not trim to the
  empty string and which the backend acknowledges (status \<open>'success'\<close>) puts the new
  conversation at the head of the list, which so grows by exactly one, and makes it the
  active conversation.
\<close>

theorem create_prepends_and_activates:
  "trim t \<noteq> [] \<longrightarrow>
     conversations
       (create_all (calls @ [(t, Inr (ConversationReply (lit ''success'') c))]) s) =
       c # conversations (create_all calls s) \<and>
     length (conversations
       (create_all (calls @ [(t, Inr (ConversationReply (lit ''success'') c))]) s)) =
       Suc (length (conversations (create_all calls s))) \<and>
     activeConversationId
       (create_all (calls @ [(t, Inr (ConversationReply (lit ''success'') c))]) s) =
       Some (conv_id c)"
  by (simp add: create_all_snoc create_acknowledged)

theorem create_prepends_and_activates_witness:
  "trim (lit ''Lab Results'') \<noteq> [] \<and>
   conversations
     (create_all
        ([(lit ''   '', Inr (ConversationReply (lit ''success'') lab_results))] @
         [(lit ''Lab Results'', Inr (ConversationReply (lit ''success'') lab_results))])
        initial) = [lab_results] \<and>
   activeConversationId
     (create_all
        ([(lit ''   '', Inr (ConversationReply (lit ''success'') lab_results))] @
         [(lit ''Lab Results'', Inr (ConversationReply (lit ''success'') lab_results))])
        initial) = Some (lit ''c1'')"
  using create_prepends_and_activates
    [of "lit ''Lab Results''"
        "[(lit ''   '', Inr (ConversationReply (lit ''success'') lab_results))]"
        lab_results initial]
  by (simp add: trim_lab_results trim_blank create_all_def create_def
      createNewConversation_def truthy_def initial_def lab_results_def)

section \<open>Switching the active conversation\<close>

text \<open>
  C6, as the code has it. The effect that loads the thread depends on
  \<open>activeConversationId\<close> and runs only when it changes. Selecting a conversation that is
  not the active one, with a truthy id, makes it active and sends the GET of its messages;
  when that call is fulfilled with status \<open>'success'\<close>, whatever the message list holds by
  then is replaced by exactly the list returned. Selecting the conversation that is
  already active sends nothing and leaves the message list as it is. \<open>setActive(null)\<close>
  coming from an active conversation sends nothing, clears the selection and leaves both
  the message list and the unfiled history empty.
\<close>

theorem setActive_loads_messages:
  "(truthy i \<and> activeConversationId s \<noteq> Some i \<longrightarrow>
      snd (setActive (Some i) s) = Some (loadConversationMessages i) \<and>
      activeConversationId (fst (setActive (Some i) s)) = Some i) \<and>
   conversationMessages
      (loadConversationMessages_settle (Inr (MessagesReply (lit ''success'') ms)) s') = ms \<and>
   (activeConversationId s = Some i \<longrightarrow>
      setActive (Some i) s = (s\<lparr>history := []\<rparr>, None)) \<and>
   (activeConversationId s \<noteq> None \<or> conversationMessages s = [] \<longrightarrow>
      snd (setActive None s) = None \<and>
      activeConversationId (fst (setActive None s)) = None \<and>
      conversationMessages (fst (setActive None s)) = [] \<and>
      history (fst (setActive None s)) = [])"
  by (auto simp: setActive_def commit_def handleConversationSelect_def
      useEffect_activeConversationId_def loadConversationMessages_settle_def)

theorem setActive_loads_messages_witness:
  "truthy (lit ''c1'') \<and> activeConversationId initial \<noteq> Some (lit ''c1'') \<and>
   snd (setActive (Some (lit ''c1'')) initial) =
     Some (Request GET (lit ''http://localhost:8001/conversations/'' @ lit ''c1'') NoBody,
           LoadMessagesK) \<and>
   conversationMessages
     (loadConversationMessages_settle
        (Inr (MessagesReply (lit ''success'') [earlier_message]))
        (fst (setActive (Some (lit ''c1'')) initial))) = [earlier_message] \<and>
   activeConversationId
     (initial\<lparr>activeConversationId := Some (lit ''c1''),
        conversationMessages := [earlier_message]\<rparr>) = Some (lit ''c1'') \<and>
   conversationMessages
     (fst (setActive (Some (lit ''c1''))
        (initial\<lparr>activeConversationId := Some (lit ''c1''),
           conversationMessages := [earlier_message]\<rparr>))) = [earlier_message] \<and>
   snd (setActive (Some (lit ''c1''))
        (initial\<lparr>activeConversationId := Some (lit ''c1''),
           conversationMessages := [earlier_message]\<rparr>)) = None \<and>
   conversationMessages
     (fst (setActive None
        (initial\<lparr>activeConversationId := Some (lit ''c1''),
           conversationMessages := [earlier_message]\<rparr>))) = []"
  using
    setActive_loads_messages [of "lit ''c1''" initial "[earlier_message]"
      "fst (setActive (Some (lit ''c1'')) initial)"]
    setActive_loads_messages [of "lit ''c1''"
      "initial\<lparr>activeConversationId := Some (lit ''c1''),
         conversationMessages := [earlier_message]\<rparr>" "[earlier_message]" initial]
  by (simp add: truthy_def initial_def loadConversationMessages_def)

text \<open>
  C6 as stated fails in two reachable configurations. In the first the thread of the
  active conversation, which the backend returned empty, holds the error of a rejected
  question; selecting that conversation again sends no call (none is in flight afterwards)
  and the thread still holds that message, which the backend never returned. In the second
  the selection is already \<open>null\<close> and a late reply has filled the message list; the second
  \<open>setActive(null)\<close> changes nothing, and the list is not empty.
\<close>

theorem setActive_counterexample:
  "conversationMessages (ui (run reselect_active initial_config)) =
     [\<lparr>question = lit ''What are my results?'',
       answer = CROSS_MARK @ lit '' Error: '' @ lit ''Document not found'',
       task_type = lit ''unknown'', timestamp = lit ''t4''\<rparr>] \<and>
   activeConversationId (ui (run reselect_active initial_config)) = Some (lit ''c1'') \<and>
   inflight (run reselect_active initial_config) = [] \<and>
   activeConversationId (ui (run two_deletes initial_config)) = None \<and>
   conversationMessages (ui (run two_deletes initial_config)) = [earlier_message] \<and>
   inflight (run two_deletes initial_config) = []"
  by (simp add: run_def reselect_active_def two_deletes_def initial_config_def initial_def
      handler_defs map_index_def detail_or_message_def not_found_def lab_results_def)

section \<open>Deleting the active conversation\<close>



section \<open>The optimistic placeholder\<close>

text \<open>
  C2. In any configuration with its calls numbered (every reachable one), submitting a
  non-empty question with the composer enabled appends, within the submitting step itself,
  a message whose answer is the processing sentinel to the active thread (the messages of
  the active conversation, else the unfiled history) and clears the composer; the query is
  then in flight under a fresh number, so before the step there was nothing of this
  exchange that could settle: the append comes before the resolution.
\<close>

theorem placeholder_precedes_resolution:
  "numbered c \<and> can_ask (ui c) \<and> questionText (ui c) \<noteq> [] \<longrightarrow>
     questionText (ui (step (Ask now stamp) c)) = [] \<and>
     (if truthy_opt (activeConversationId (ui c))
      then conversationMessages (ui (step (Ask now stamp) c)) =
             conversationMessages (ui c) @
               [\<lparr>question = questionText (ui c), answer = PROCESSING,
                 task_type = lit ''unknown'', timestamp = stamp\<rparr>]
      else history (ui (step (Ask now stamp) c)) =
             history (ui c) @
               [\<lparr>entry_id = now, entry_question = questionText (ui c),
                 entry_answer = PROCESSING\<rparr>]) \<and>
     map_of (inflight (step (Ask now stamp) c)) (next_id c) =
       Some (Request POST (endpoint (activeConversationId (ui c)))
               (QueryBody (questionText (ui c)) (documentId (ui c)) (lit ''general'')),
             AskK (activeConversationId (ui c)) now) \<and>
     map_of (inflight c) (next_id c) = None \<and>
     step (Settle (next_id c) stamp' r) c = c"
proof (intro impI, elim conjE)
  assume n: "numbered c" and a: "can_ask (ui c)" and q: "questionText (ui c) \<noteq> []"
  from q have t: "truthy (questionText (ui c))"
    by (simp add: truthy_def)
  from a have d: "truthy (documentId (ui c))"
    by (simp add: can_ask_def)
  note st = step_Ask [OF a t, of now stamp]
  note h = handleAsk_accepted [OF t d, of now stamp]
  have 1: "questionText (ui (step (Ask now stamp) c)) = []"
    by (simp add: st h del: step.simps)
  have 2: "if truthy_opt (activeConversationId (ui c))
      then conversationMessages (ui (step (Ask now stamp) c)) =
             conversationMessages (ui c) @
               [\<lparr>question = questionText (ui c), answer = PROCESSING,
                 task_type = lit ''unknown'', timestamp = stamp\<rparr>]
      else history (ui (step (Ask now stamp) c)) =
             history (ui c) @
               [\<lparr>entry_id = now, entry_question = questionText (ui c),
                 entry_answer = PROCESSING\<rparr>]"
    by (simp add: st h del: step.simps)
  have 4: "map_of (inflight c) (next_id c) = None"
    by (rule numbered_fresh [OF n])
  have 3: "map_of (inflight (step (Ask now stamp) c)) (next_id c) =
       Some (Request POST (endpoint (activeConversationId (ui c)))
               (QueryBody (questionText (ui c)) (documentId (ui c)) (lit ''general'')),
             AskK (activeConversationId (ui c)) now)"
    using 4 by (simp add: st map_add_def del: step.simps)
  have 5: "step (Settle (next_id c) stamp' r) c = c"
    by (simp add: 4)
  from 1 2 3 4 5 show "questionText (ui (step (Ask now stamp) c)) = [] \<and>
     (if truthy_opt (activeConversationId (ui c))
      then conversationMessages (ui (step (Ask now stamp) c)) =
             conversationMessages (ui c) @
               [\<lparr>question = questionText (ui c), answer = PROCESSING,
                 task_type = lit ''unknown'', timestamp = stamp\<rparr>]
      else history (ui (step (Ask now stamp) c)) =
             history (ui c) @
               [\<lparr>entry_id = now, entry_question = questionText (ui c),
                 entry_answer = PROCESSING\<rparr>]) \<and>
     map_of (inflight (step (Ask now stamp) c)) (next_id c) =
       Some (Request POST (endpoint (activeConversationId (ui c)))
               (QueryBody (questionText (ui c)) (documentId (ui c)) (lit ''general'')),
             AskK (activeConversationId (ui c)) now) \<and>
     map_of (inflight c) (next_id c) = None \<and>
     step (Settle (next_id c) stamp' r) c = c"
    by blast
qed

theorem placeholder_precedes_resolution_witness:
  "numbered typed_unfiled \<and> can_ask (ui typed_unfiled) \<and>
   questionText (ui typed_unfiled) \<noteq> [] \<and>
   questionText (ui (step (Ask 1000 (lit ''t4'')) typed_unfiled)) = [] \<and>
   history (ui (step (Ask 1000 (lit ''t4'')) typed_unfiled)) =
     [\<lparr>entry_id = 1000, entry_question = lit ''What are my results?'',
       entry_answer = PROCESSING\<rparr>] \<and>
   map_of (inflight (step (Ask 1000 (lit ''t4'')) typed_unfiled)) 2 =
     Some (Request POST (lit ''http://localhost:8001/query'')
             (QueryBody (lit ''What are my results?'') (lit ''d1'') (lit ''general'')),
           AskK None 1000)"
  using placeholder_precedes_resolution [of typed_unfiled 1000 "lit ''t4''"]
  by (simp add: typed_unfiled_def initial_def numbered_def can_ask_def truthy_def
      truthy_opt_def endpoint_def)

section \<open>A failed exchange\<close>

text \<open>
  A question is submitted and its call is rejected, nothing happening in between. The
  placeholder's answer becomes the cross mark, \<open>" Error: "\<close> and the backend's detail when
  there is a non-empty one, else the message of the transport error; that string is not
  empty; the rest of the handler returns (no error leaves it); \<open>asking\<close> is reset; and the
  calls in flight are those from before the submission, so nothing is sent again.
\<close>

lemma lone_failed_exchange_shows_error:
  "numbered c \<and> can_ask (ui c) \<and> questionText (ui c) \<noteq> [] \<longrightarrow>
     (let c1 = step (Ask now stamp) c;
          c2 = step (Settle (next_id c) stamp' (QuerySettled (Inl err))) c1;
          errorMessage = CROSS_MARK @ lit '' Error: '' @
            (case err_detail err of
               None \<Rightarrow> err_message err
             | Some d \<Rightarrow> if d = [] then err_message err else d)
      in errorMessage \<noteq> [] \<and>
         (if truthy_opt (activeConversationId (ui c))
          then conversationMessages (ui c2) =
                 conversationMessages (ui c) @
                   [\<lparr>question = questionText (ui c), answer = errorMessage,
                     task_type = lit ''unknown'', timestamp = stamp\<rparr>]
          else history (ui c2) =
                 map (\<lambda>h. if entry_id h = now then h\<lparr>entry_answer := errorMessage\<rparr> else h)
                   (history (ui c)) @
                 [\<lparr>entry_id = now, entry_question = questionText (ui c),
                   entry_answer = errorMessage\<rparr>]) \<and>
         (\<exists>s'. handleAsk_settle (activeConversationId (ui c)) now stamp' (Inl err) (ui c1) =
                Inr s') \<and>
         \<not> asking (ui c2) \<and>
         inflight c2 = inflight c)"
proof (intro impI, elim conjE)
  assume n: "numbered c" and a: "can_ask (ui c)" and q: "questionText (ui c) \<noteq> []"
  from q have t: "truthy (questionText (ui c))"
    by (simp add: truthy_def)
  from a have d: "truthy (documentId (ui c))"
    by (simp add: can_ask_def)
  note st = step_Ask [OF a t, of now stamp]
  note h = handleAsk_accepted [OF t d, of now stamp]
  define E where "E = CROSS_MARK @ lit '' Error: '' @ detail_or_message err"
  have E: "E \<noteq> []"
    by (simp add: E_def CROSS_MARK_def)
  define s1 where "s1 = fst (handleAsk now stamp (ui c))"
  have st1: "step (Ask now stamp) c =
      c\<lparr>ui := s1,
        inflight := inflight c @
          [(next_id c,
            Request POST (endpoint (activeConversationId (ui c)))
              (QueryBody (questionText (ui c)) (documentId (ui c)) (lit ''general'')),
            AskK (activeConversationId (ui c)) now)],
        next_id := Suc (next_id c)\<rparr>"
    unfolding s1_def by (rule st)
  have m1: "truthy_opt (activeConversationId (ui c)) \<Longrightarrow>
      conversationMessages s1 = conversationMessages (ui c) @
         [\<lparr>question = questionText (ui c), answer = PROCESSING,
           task_type = lit ''unknown'', timestamp = stamp\<rparr>]"
    by (simp add: s1_def h)
  have h1: "\<not> truthy_opt (activeConversationId (ui c)) \<Longrightarrow>
      history s1 = history (ui c) @
         [\<lparr>entry_id = now, entry_question = questionText (ui c),
           entry_answer = PROCESSING\<rparr>]"
    by (simp add: s1_def h)
  show "let c1 = step (Ask now stamp) c;
          c2 = step (Settle (next_id c) stamp' (QuerySettled (Inl err))) c1;
          errorMessage = CROSS_MARK @ lit '' Error: '' @
            (case err_detail err of
               None \<Rightarrow> err_message err
             | Some d \<Rightarrow> if d = [] then err_message err else d)
      in errorMessage \<noteq> [] \<and>
         (if truthy_opt (activeConversationId (ui c))
          then conversationMessages (ui c2) =
                 conversationMessages (ui c) @
                   [\<lparr>question = questionText (ui c), answer = errorMessage,
                     task_type = lit ''unknown'', timestamp = stamp\<rparr>]
          else history (ui c2) =
                 map (\<lambda>h. if entry_id h = now then h\<lparr>entry_answer := errorMessage\<rparr> else h)
                   (history (ui c)) @
                 [\<lparr>entry_id = now, entry_question = questionText (ui c),
                   entry_answer = errorMessage\<rparr>]) \<and>
         (\<exists>s'. handleAsk_settle (activeConversationId (ui c)) now stamp' (Inl err) (ui c1) =
                Inr s') \<and>
         \<not> asking (ui c2) \<and>
         inflight c2 = inflight c"
  proof (cases "truthy_opt (activeConversationId (ui c))")
    case True
    have r: "handleAsk_settle (activeConversationId (ui c)) now stamp' (Inl err) s1 =
      Inr (s1\<lparr>conversationMessages := conversationMessages (ui c) @
           [\<lparr>question = questionText (ui c), answer = PROCESSING,
             task_type = lit ''unknown'', timestamp = stamp\<rparr>\<lparr>answer := E\<rparr>],
         asking := False\<rparr>)"
      unfolding E_def by (rule handleAsk_settle_rejected_thread [OF True m1 [OF True]])
    show ?thesis
      using True E
      by (simp add: Let_def st1 step_Settle_Ask [OF n] r E_def [symmetric]
          detail_or_message_cases [symmetric] del: step.simps)
  next
    case False
    have r: "handleAsk_settle (activeConversationId (ui c)) now stamp' (Inl err) s1 =
      Inr (s1\<lparr>history :=
            map (\<lambda>h. if entry_id h = now then h\<lparr>entry_answer := E\<rparr> else h) (history s1),
         asking := False\<rparr>)"
      unfolding E_def by (rule handleAsk_settle_rejected_history [OF False])
    show ?thesis
      using False E
      by (simp add: Let_def st1 step_Settle_Ask [OF n] r h1 [OF False] E_def [symmetric]
          detail_or_message_cases [symmetric] del: step.simps)
  qed
qed

lemma lone_failed_exchange_at_sample:
  "numbered typed_unfiled \<and> can_ask (ui typed_unfiled) \<and>
   questionText (ui typed_unfiled) \<noteq> [] \<and>
   history (ui (step (Settle 2 (lit ''t6'') (QuerySettled (Inl not_found)))
                  (step (Ask 1000 (lit ''t4'')) typed_unfiled))) =
     [\<lparr>entry_id = 1000, entry_question = lit ''What are my results?'',
       entry_answer = CROSS_MARK @ lit '' Error: '' @ lit ''Document not found''\<rparr>] \<and>
   inflight (step (Settle 2 (lit ''t6'') (QuerySettled (Inl not_found)))
               (step (Ask 1000 (lit ''t4'')) typed_unfiled)) = []"
  using lone_failed_exchange_shows_error [of typed_unfiled 1000 "lit ''t4''" "lit ''t6''" not_found]
  by (simp add: typed_unfiled_def initial_def numbered_def can_ask_def truthy_def
      truthy_opt_def not_found_def Let_def del: step.simps)

section \<open>Two exchanges in flight\<close>

lemma run_append: "run (events @ events') c = run events' (run events c)"
  by (simp add: run_def)

text \<open>
  The sample session up to the moment both calls are in flight: the thread of the active
  conversation ends with the placeholder of the question and, after it, the placeholder
  of the analysis.
\<close>

lemma two_in_flight_config:
  "run two_in_flight initial_config =
     \<lparr>ui = \<lparr>chosenFile = Some (lit ''policy.pdf''), questionText = [], history = [],
             documentId = lit ''d1'', uploading = False, asking = True, analyzing = True,
             activeConversationId = Some (lit ''c1''),
             conversationMessages =
               [\<lparr>question = lit ''What are my results?'', answer = PROCESSING,
                 task_type = lit ''unknown'', timestamp = lit ''t4''\<rparr>,
                \<lparr>question = COMPREHENSIVE_ANALYSIS, answer = ANALYZING,
                 task_type = lit ''analysis'', timestamp = lit ''t5''\<rparr>],
             conversations = [lab_results], loading = False, showModal = False,
             editingId = None, newTitle = []\<rparr>,
       inflight =
         [(4, Request POST (lit ''http://localhost:8001/query/'' @ lit ''c1'')
                (QueryBody (lit ''What are my results?'') (lit ''d1'') (lit ''general'')),
              AskK (Some (lit ''c1'')) 1000),
          (5, Request POST (lit ''http://localhost:8001/query/'' @ lit ''c1'')
                (QueryBody (lit ''Provide a comprehensive analysis of this document'')
                   (lit ''d1'') (lit ''general'')),
              AnalyzeK (Some (lit ''c1'')) 2000)],
       next_id = 6\<rparr>"
  by (simp add: run_def two_in_flight_def initial_config_def initial_def handler_defs
      trim_lab_results lab_results_def)

text \<open>
  With one exchange and nothing in between, the answer lands on the placeholder: the
  thread of the scenario ends as one message with the question and the backend's answer.
\<close>

lemma lab_results_scenario:
  "conversationMessages (ui (run lab_results_session initial_config)) =
     [\<lparr>question = lit ''What are my results?'', answer = lit ''Normal'',
       task_type = lit ''translation'', timestamp = lit ''t6''\<rparr>] \<and>
   inflight (run lab_results_session initial_config) = []"
  by (simp add: run_def lab_results_session_def initial_config_def initial_def handler_defs
      trim_lab_results lab_results_def map_index_def)

text \<open>Neither outcome of a question changes the question of any message or entry.\<close>

lemma map_index_cong_nth:
  "(\<And>n. n < length xs \<Longrightarrow> g (f (xs ! n) n) = g (xs ! n)) \<Longrightarrow>
   map g (map_index f xs) = map g xs"
  by (rule nth_equalityI) (simp_all add: length_map_index nth_map_index)

lemma handleAsk_settle_questions:
  assumes "handleAsk_settle active i stamp r s = Inr s'"
  shows "map question (conversationMessages s') = map question (conversationMessages s) \<and>
         map entry_question (history s') = map entry_question (history s)"
proof (cases r)
  case (Inl err)
  with assms show ?thesis
    by (cases "truthy_opt active")
      (auto simp: handleAsk_settle_def Let_def map_index_cong_nth comp_def
        if_distrib [of entry_question] cong: if_cong)
next
  case (Inr res)
  with assms show ?thesis
    by (cases "truthy_opt active")
      (auto simp: handleAsk_settle_def Let_def map_index_cong_nth comp_def
        if_distrib [of entry_question] cong: if_cong)
qed

text \<open>
  With no conversation active the answer goes to the entries that carry the id of the
  submission, wherever they are in the history, and to no other entry.
\<close>

lemma unfiled_resolution_by_id:
  assumes "\<not> truthy_opt active" and "n < length (history s)"
    and "handleAsk_settle active i stamp (Inr res) s = Inr s'"
  shows "history s' ! n =
     (if entry_id (history s ! n) = i
      then (history s ! n)\<lparr>entry_answer := reply_answer res\<rparr>
      else history s ! n)"
  using assms by (auto simp: handleAsk_settle_def)

text \<open>
  With a conversation active the answer goes to whatever message is last when it arrives.
  After the user has moved to another conversation, that is a message of the other
  conversation.
\<close>

lemma stale_resolution_after_navigation:
  "activeConversationId (ui (run asked_then_switched initial_config)) = Some (lit ''c2'') \<and>
   conversationMessages (ui (run asked_then_switched initial_config)) =
     [earlier_message\<lparr>answer := lit ''Normal'', task_type := lit ''translation'',
        timestamp := lit ''t6''\<rparr>]"
  by (simp add: run_def asked_then_switched_def initial_config_def initial_def handler_defs
      map_index_def)

text \<open>
  C8 (the answer of the placeholder of a failed exchange becomes the error string) does
  not hold of the code when a conversation is active and another exchange was submitted
  after the failed one. The question is asked, the analysis is started behind it, and the
  call of the question is rejected with the detail "Document not found". The catch branch
  of \<open>handleAsk\<close> patches the element at index \<open>length - 1\<close>: the error string is written
  into the placeholder of the analysis, the placeholder of the question keeps the
  processing sentinel, and the call of the question is no longer in flight.
\<close>

theorem rejected_ask_misses_placeholder:
  "conversationMessages (ui (run (two_in_flight @
       [Settle 4 (lit ''t6'') (QuerySettled (Inl not_found))])
       initial_config)) =
     [\<lparr>question = lit ''What are my results?'', answer = PROCESSING,
       task_type = lit ''unknown'', timestamp = lit ''t4''\<rparr>,
      \<lparr>question = COMPREHENSIVE_ANALYSIS,
       answer = CROSS_MARK @ lit '' Error: '' @ lit ''Document not found'',
       task_type = lit ''analysis'', timestamp = lit ''t5''\<rparr>] \<and>
   map fst (inflight (run (two_in_flight @
       [Settle 4 (lit ''t6'') (QuerySettled (Inl not_found))])
       initial_config)) = [5]"
  unfolding run_append two_in_flight_config
  by (simp add: run_def handler_defs map_index_def detail_or_message_def not_found_def)

text \<open>
  C1 (the resolution of an exchange overwrites the answer of that exchange's own message
  exactly once, whatever else is in flight) does not hold of the code when a conversation
  is active. The question "What are my results?" is asked in the active conversation and
  the analysis is started before its answer arrives. When the answer "Normal" of the
  question arrives first, \<open>handleAsk\<close> patches the element at index \<open>length - 1\<close>, which is
  the placeholder of the analysis: that message now carries the question's answer and task
  type, and the placeholder of the question is untouched. When the analysis settles it
  overwrites the same message a second time. No call is left in flight, and the question's
  own message is still the processing sentinel.
\<close>

theorem ask_resolution_hits_other_exchange:
  "conversationMessages (ui (run (two_in_flight @
       [Settle 4 (lit ''t6'')
          (QuerySettled (Inr (QueryReply (lit ''Normal'') (lit ''translation''))))])
       initial_config)) =
     [\<lparr>question = lit ''What are my results?'', answer = PROCESSING,
       task_type = lit ''unknown'', timestamp = lit ''t4''\<rparr>,
      \<lparr>question = COMPREHENSIVE_ANALYSIS, answer = lit ''Normal'',
       task_type = lit ''translation'', timestamp = lit ''t6''\<rparr>] \<and>
   conversationMessages (ui (run (two_in_flight @
       [Settle 4 (lit ''t6'')
          (QuerySettled (Inr (QueryReply (lit ''Normal'') (lit ''translation'')))),
        Settle 5 (lit ''t7'')
          (QuerySettled (Inr (QueryReply (lit ''Summary'') (lit ''analysis''))))])
       initial_config)) =
     [\<lparr>question = lit ''What are my results?'', answer = PROCESSING,
       task_type = lit ''unknown'', timestamp = lit ''t4''\<rparr>,
      \<lparr>question = COMPREHENSIVE_ANALYSIS, answer = lit ''Summary'',
       task_type = lit ''analysis'', timestamp = lit ''t6''\<rparr>] \<and>
   inflight (run (two_in_flight @
       [Settle 4 (lit ''t6'')
          (QuerySettled (Inr (QueryReply (lit ''Normal'') (lit ''translation'')))),
        Settle 5 (lit ''t7'')
          (QuerySettled (Inr (QueryReply (lit ''Summary'') (lit ''analysis''))))])
       initial_config) = []"
  unfolding run_append two_in_flight_config
  by (simp add: run_def handler_defs map_index_def)

section \<open>The comprehensive analysis\<close>

lemma endpoint_not_analyze: "endpoint active \<noteq> lit ''http://localhost:8001/analyze''"
  by (simp add: endpoint_def lit_def split: option.split)

lemma handleAnalyze_accepted:
  "truthy (documentId s) \<Longrightarrow>
   handleAnalyze now stamp s =
     ((if truthy_opt (activeConversationId s)
       then s\<lparr>analyzing := True, conversationMessages := conversationMessages s @
              [\<lparr>question = COMPREHENSIVE_ANALYSIS, answer = ANALYZING,
                task_type = lit ''analysis'', timestamp = stamp\<rparr>]\<rparr>
       else s\<lparr>analyzing := True, history := history s @
              [\<lparr>entry_id = now, entry_question = COMPREHENSIVE_ANALYSIS,
                entry_answer = ANALYZING\<rparr>]\<rparr>),
      Some (Request POST (endpoint (activeConversationId s))
              (QueryBody (lit ''Provide a comprehensive analysis of this document'')
                 (documentId s) (lit ''general'')),
            AnalyzeK (activeConversationId s) now))"
  by (simp add: handleAnalyze_def Let_def)

lemma handleAnalyze_settle_thread:
  assumes "truthy_opt active" and "conversationMessages s = ms @ [p]"
  shows "handleAnalyze_settle active i r s =
     Inr (s\<lparr>conversationMessages :=
              ms @ [case r of
                      Inr res \<Rightarrow> p\<lparr>answer := reply_answer res,
                                   task_type := reply_task_type res\<rparr>
                    | Inl err \<Rightarrow> p\<lparr>answer := CROSS_MARK @ lit '' Analysis failed: '' @
                                     detail_or_message err\<rparr>],
            analyzing := False\<rparr>)"
proof (cases r)
  case (Inl err)
  show ?thesis
    using assms(1)
      map_index_last [of ms p
        "\<lambda>msg. msg\<lparr>answer := CROSS_MARK @ lit '' Analysis failed: '' @
           detail_or_message err\<rparr>"]
    by (simp add: handleAnalyze_settle_def Let_def assms(2) Inl)
next
  case (Inr res)
  show ?thesis
    using assms(1)
      map_index_last [of ms p
        "\<lambda>msg. msg\<lparr>answer := reply_answer res, task_type := reply_task_type res\<rparr>"]
    by (simp add: handleAnalyze_settle_def Let_def assms(2) Inr)
qed

lemma handleAnalyze_settle_history:
  assumes "\<not> truthy_opt active"
  shows "handleAnalyze_settle active i r s =
     Inr (s\<lparr>history :=
              map (\<lambda>h. if entry_id h = i
                        then h\<lparr>entry_answer :=
                               (case r of
                                  Inr res \<Rightarrow> reply_answer res
                                | Inl err \<Rightarrow> CROSS_MARK @ lit '' Analysis failed: '' @
                                    detail_or_message err)\<rparr>
                        else h) (history s),
            analyzing := False\<rparr>)"
  using assms by (cases r) (simp_all add: handleAnalyze_settle_def Let_def)

lemma handleAnalyze_both_phases:
  assumes "documentId s \<noteq> []"
  shows "\<exists>s'. handleAnalyze_settle (activeConversationId s) now r
                (fst (handleAnalyze now stamp s)) = Inr s' \<and>
     \<not> analyzing s' \<and>
     (if truthy_opt (activeConversationId s)
      then conversationMessages s' =
             conversationMessages s @
               [case r of
                  Inr res \<Rightarrow>
                    \<lparr>question = COMPREHENSIVE_ANALYSIS, answer = reply_answer res,
                      task_type = reply_task_type res, timestamp = stamp\<rparr>
                | Inl err \<Rightarrow>
                    \<lparr>question = COMPREHENSIVE_ANALYSIS,
                      answer = CROSS_MARK @ lit '' Analysis failed: '' @ detail_or_message err,
                      task_type = lit ''analysis'', timestamp = stamp\<rparr>]
      else last (history s') =
             \<lparr>entry_id = now, entry_question = COMPREHENSIVE_ANALYSIS,
               entry_answer =
                 (case r of
                    Inr res \<Rightarrow> reply_answer res
                  | Inl err \<Rightarrow> CROSS_MARK @ lit '' Analysis failed: '' @
                      detail_or_message err)\<rparr>)"
proof -
  from assms have t: "truthy (documentId s)"
    by (simp add: truthy_def)
  note h = handleAnalyze_accepted [OF t, of now stamp]
  define s1 where "s1 = fst (handleAnalyze now stamp s)"
  show ?thesis
  proof (cases "truthy_opt (activeConversationId s)")
    case True
    have m: "conversationMessages s1 = conversationMessages s @
        [\<lparr>question = COMPREHENSIVE_ANALYSIS, answer = ANALYZING,
          task_type = lit ''analysis'', timestamp = stamp\<rparr>]"
      by (simp add: s1_def h True)
    show ?thesis
      using True
      by (cases r)
        (simp_all add: handleAnalyze_settle_thread [OF True m, of now] s1_def [symmetric])
  next
    case False
    have m: "history s1 = history s @
        [\<lparr>entry_id = now, entry_question = COMPREHENSIVE_ANALYSIS,
          entry_answer = ANALYZING\<rparr>]"
      by (simp add: s1_def h False)
    show ?thesis
      using False
      by (cases r)
        (simp_all add: handleAnalyze_settle_history [OF False, of now] s1_def [symmetric] m)
  qed
qed

text \<open>
  C4, as the code has it. \<open>handleAnalyze\<close> of \<open>FinalApp\<close> follows the two phases of a question:
  it appends a placeholder (question "Comprehensive Analysis" after the magnifier, answer
  the analyzing sentinel) to the active thread and posts the fixed question
  "Provide a comprehensive analysis of this document" to the endpoint a question is posted
  to, \<open>/query/{conversationId}\<close> when a conversation is active and \<open>/query\<close> otherwise, never
  to \<open>/analyze\<close>; when the call settles with nothing in between, the placeholder's answer
  becomes the answer of the reply, or the cross mark, \<open>" Analysis failed: "\<close> and the detail
  or message of the error. \<open>handleAnalyze\<close> of the single-answer \<open>App\<close> posts to \<open>/analyze\<close>, and its
  body is the policy id alone, with no question.
\<close>

theorem analysis_uses_question_endpoint:
  "(documentId s \<noteq> [] \<longrightarrow>
      snd (handleAnalyze now stamp s) =
        Some (Request POST (endpoint (activeConversationId s))
                (QueryBody (lit ''Provide a comprehensive analysis of this document'')
                   (documentId s) (lit ''general'')),
              AnalyzeK (activeConversationId s) now) \<and>
      endpoint (activeConversationId s) \<noteq> lit ''http://localhost:8001/analyze'' \<and>
      (questionText s \<noteq> [] \<longrightarrow>
         map_option (\<lambda>(req, k). (req_method req, req_url req))
           (snd (handleAsk now' stamp' s)) =
         Some (POST, endpoint (activeConversationId s))) \<and>
      (if truthy_opt (activeConversationId s)
       then conversationMessages (fst (handleAnalyze now stamp s)) =
              conversationMessages s @
                [\<lparr>question = COMPREHENSIVE_ANALYSIS, answer = ANALYZING,
                  task_type = lit ''analysis'', timestamp = stamp\<rparr>]
       else history (fst (handleAnalyze now stamp s)) =
              history s @
                [\<lparr>entry_id = now, entry_question = COMPREHENSIVE_ANALYSIS,
                  entry_answer = ANALYZING\<rparr>]) \<and>
      (\<exists>s'. handleAnalyze_settle (activeConversationId s) now r
               (fst (handleAnalyze now stamp s)) = Inr s' \<and>
         \<not> analyzing s' \<and>
         (if truthy_opt (activeConversationId s)
          then conversationMessages s' =
                 conversationMessages s @
                   [case r of
                      Inr res \<Rightarrow>
                        \<lparr>question = COMPREHENSIVE_ANALYSIS, answer = reply_answer res,
                          task_type = reply_task_type res, timestamp = stamp\<rparr>
                    | Inl err \<Rightarrow>
                        \<lparr>question = COMPREHENSIVE_ANALYSIS,
                          answer = CROSS_MARK @ lit '' Analysis failed: '' @
                            detail_or_message err,
                          task_type = lit ''analysis'', timestamp = stamp\<rparr>]
          else last (history s') =
                 \<lparr>entry_id = now, entry_question = COMPREHENSIVE_ANALYSIS,
                   entry_answer =
                     (case r of
                        Inr res \<Rightarrow> reply_answer res
                      | Inl err \<Rightarrow> CROSS_MARK @ lit '' Analysis failed: '' @
                          detail_or_message err)\<rparr>))) \<and>
   (policyId a \<noteq> [] \<longrightarrow>
      snd (App_handleAnalyze a) =
        Some (Request POST (lit ''http://localhost:8001/analyze'') (PolicyBody (policyId a))))"
proof (intro conjI impI)
  assume d: "documentId s \<noteq> []"
  then have t: "truthy (documentId s)"
    by (simp add: truthy_def)
  note h = handleAnalyze_accepted [OF t, of now stamp]
  show "snd (handleAnalyze now stamp s) =
        Some (Request POST (endpoint (activeConversationId s))
                (QueryBody (lit ''Provide a comprehensive analysis of this document'')
                   (documentId s) (lit ''general'')),
              AnalyzeK (activeConversationId s) now)"
    by (simp add: h)
  show "endpoint (activeConversationId s) \<noteq> lit ''http://localhost:8001/analyze''"
    by (rule endpoint_not_analyze)
  show "if truthy_opt (activeConversationId s)
       then conversationMessages (fst (handleAnalyze now stamp s)) =
              conversationMessages s @
                [\<lparr>question = COMPREHENSIVE_ANALYSIS, answer = ANALYZING,
                  task_type = lit ''analysis'', timestamp = stamp\<rparr>]
       else history (fst (handleAnalyze now stamp s)) =
              history s @
                [\<lparr>entry_id = now, entry_question = COMPREHENSIVE_ANALYSIS,
                  entry_answer = ANALYZING\<rparr>]"
    by (simp add: h)
  show "\<exists>s'. handleAnalyze_settle (activeConversationId s) now r
               (fst (handleAnalyze now stamp s)) = Inr s' \<and>
         \<not> analyzing s' \<and>
         (if truthy_opt (activeConversationId s)
          then conversationMessages s' =
                 conversationMessages s @
                   [case r of
                      Inr res \<Rightarrow>
                        \<lparr>question = COMPREHENSIVE_ANALYSIS, answer = reply_answer res,
                          task_type = reply_task_type res, timestamp = stamp\<rparr>
                    | Inl err \<Rightarrow>
                        \<lparr>question = COMPREHENSIVE_ANALYSIS,
                          answer = CROSS_MARK @ lit '' Analysis failed: '' @
                            detail_or_message err,
                          task_type = lit ''analysis'', timestamp = stamp\<rparr>]
          else last (history s') =
                 \<lparr>entry_id = now, entry_question = COMPREHENSIVE_ANALYSIS,
                   entry_answer =
                     (case r of
                        Inr res \<Rightarrow> reply_answer res
                      | Inl err \<Rightarrow> CROSS_MARK @ lit '' Analysis failed: '' @
                          detail_or_message err)\<rparr>)"
    by (rule handleAnalyze_both_phases [OF d])
  assume "questionText s \<noteq> []"
  then have "truthy (questionText s)"
    by (simp add: truthy_def)
  then show "map_option (\<lambda>(req, k). (req_method req, req_url req))
           (snd (handleAsk now' stamp' s)) =
         Some (POST, endpoint (activeConversationId s))"
    using t by (simp add: handleAsk_accepted)
next
  assume "policyId a \<noteq> []"
  then show "snd (App_handleAnalyze a) =
        Some (Request POST (lit ''http://localhost:8001/analyze'') (PolicyBody (policyId a)))"
    by (simp add: App_handleAnalyze_def truthy_def)
qed

theorem analysis_uses_question_endpoint_witness:
  "documentId (ui typed_unfiled) \<noteq> [] \<and>
   questionText (ui typed_unfiled) \<noteq> [] \<and>
   snd (handleAnalyze 2000 (lit ''t5'') (ui typed_unfiled)) =
     Some (Request POST (lit ''http://localhost:8001/query'')
             (QueryBody (lit ''Provide a comprehensive analysis of this document'')
                (lit ''d1'') (lit ''general'')),
           AnalyzeK None 2000) \<and>
   history (fst (handleAnalyze 2000 (lit ''t5'') (ui typed_unfiled))) =
     [\<lparr>entry_id = 2000, entry_question = COMPREHENSIVE_ANALYSIS,
       entry_answer = ANALYZING\<rparr>] \<and>
   policyId single_with_policy \<noteq> [] \<and>
   snd (App_handleAnalyze single_with_policy) =
     Some (Request POST (lit ''http://localhost:8001/analyze'') (PolicyBody (lit ''p1'')))"
  using analysis_uses_question_endpoint
    [of "ui typed_unfiled" 2000 "lit ''t5''" 1000 "lit ''t4''"
        "Inr (QueryReply (lit ''Summary'') (lit ''analysis''))" single_with_policy]
  by (simp add: typed_unfiled_def initial_def truthy_opt_def endpoint_def
      single_with_policy_def)

text \<open>
  C4 as stated fails on both handlers: with a document uploaded and no conversation
  active, \<open>handleAnalyze\<close> of \<open>FinalApp\<close> posts its fixed question to \<open>/query\<close>, which is not
  \<open>/analyze\<close>; and \<open>handleAnalyze\<close> of the single-answer \<open>App\<close>, which does post to \<open>/analyze\<close>,
  sends the policy id and no question.
\<close>

theorem analysis_endpoint_counterexample:
  "map_option (req_url \<circ> fst) (snd (handleAnalyze 2000 (lit ''t5'') (ui typed_unfiled))) =
     Some (lit ''http://localhost:8001/query'') \<and>
   lit ''http://localhost:8001/query'' \<noteq> lit ''http://localhost:8001/analyze'' \<and>
   map_option req_body (snd (App_handleAnalyze single_with_policy)) =
     Some (PolicyBody (lit ''p1''))"
  by (simp add: handleAnalyze_def typed_unfiled_def initial_def truthy_def truthy_opt_def
      endpoint_def Let_def App_handleAnalyze_def single_with_policy_def)

end
